theory Spec2Isabelle
  imports Main "HOL-Library.Multiset"
begin

section \<open>Python strings\<close>

text \<open>
  A Python \<open>str\<close> is modelled as a HOL \<open>string\<close>: every \<open>char\<close> stands for the code
  point \<open>of_char c\<close>, so the model covers the strings over code points 0..255 and
  \<open>length\<close> is Python's \<open>len\<close> on them. The string methods used by
  \<^verbatim>\<open>biostar4/forum/forms.py\<close> follow.
\<close>

definition digit_char :: "nat \<Rightarrow> char" where
  "digit_char d = char_of (48 + d)"

text \<open>\<^verbatim>\<open>'{}'.format(n)\<close> for a non-negative integer: its decimal digits.\<close>

fun str_of_nat :: "nat \<Rightarrow> string" where
  "str_of_nat n =
     (if n < 10 then [digit_char n] else str_of_nat (n div 10) @ [digit_char (n mod 10)])"

declare str_of_nat.simps [simp del]

text \<open>\<^verbatim>\<open>sep.join(xs)\<close>.\<close>

fun join :: "string \<Rightarrow> string list \<Rightarrow> string" where
  "join sep [] = []"
| "join sep [x] = x"
| "join sep (x # y # ys) = x @ sep @ join sep (y # ys)"

text \<open>
  \<^verbatim>\<open>str.isspace\<close> on one code point below 256: U+0009..U+000D, U+001C..U+0020,
  U+0085 and U+00A0.
\<close>

definition isspace :: "char \<Rightarrow> bool" where
  "isspace c =
     (let n = (of_char c :: nat)
      in (9 \<le> n \<and> n \<le> 13) \<or> (28 \<le> n \<and> n \<le> 32) \<or> n = 133 \<or> n = 160)"

text \<open>
  \<^verbatim>\<open>str.lower\<close> on one code point below 256: A..Z and the capital letters
  U+00C0..U+00DE (U+00D7, the multiplication sign, apart) move up by 32.
\<close>

definition lower_char :: "char \<Rightarrow> char" where
  "lower_char c =
     (let n = (of_char c :: nat)
      in if (65 \<le> n \<and> n \<le> 90) \<or> (192 \<le> n \<and> n \<le> 222 \<and> n \<noteq> 215)
         then char_of (n + 32) else c)"

definition lower :: "string \<Rightarrow> string" where
  "lower s = map lower_char s"

text \<open>\<^verbatim>\<open>s.strip(chars)\<close>: drops the leading and the trailing characters found in \<open>chars\<close>.\<close>

definition strip :: "string \<Rightarrow> string \<Rightarrow> string" where
  "strip chars s =
     rev (dropWhile (\<lambda>c. c \<in> set chars) (rev (dropWhile (\<lambda>c. c \<in> set chars) s)))"

text \<open>
  \<^verbatim>\<open>s.split()\<close> with no argument: the maximal runs of non-whitespace characters, in
  order. \<open>split_acc\<close> carries the word being read.
\<close>

fun split_acc :: "string \<Rightarrow> string \<Rightarrow> string list" where
  "split_acc w [] = (if w = [] then [] else [w])"
| "split_acc w (c # cs) =
     (if isspace c then (if w = [] then split_acc [] cs else w # split_acc [] cs)
      else split_acc (w @ [c]) cs)"

definition split :: "string \<Rightarrow> string list" where
  "split s = split_acc [] s"

text \<open>\<^verbatim>\<open>s.startswith(p)\<close>.\<close>

definition startswith :: "string \<Rightarrow> string \<Rightarrow> bool" where
  "startswith s p = (take (length p) s = p)"

section \<open>Errors, users and the User table\<close>

text \<open>
  \<^verbatim>\<open>django.core.exceptions.ValidationError(message)\<close>. A Python call either raises
  (\<open>Inl\<close>) or returns a value (\<open>Inr\<close>); a function that returns nothing returns
  \<open>None\<close>, the unit value.
\<close>

datatype error = ValidationError string

record upload =
  up_id :: nat
  up_name :: string

text \<open>
  The attributes of a \<open>User\<close> row that the forms read: \<open>user.email\<close>,
  \<open>user.username\<close> and \<open>user.profile.files()\<close>.
\<close>

record user =
  email :: string
  username :: string
  files :: "upload list"

text \<open>The state of the database: the rows of the User table.\<close>

type_synonym database = "user list"

text \<open>
  \<^verbatim>\<open>User.objects.filter(email=...)\<close> and \<^verbatim>\<open>User.objects.filter(username=...)\<close>: the
  matching rows. A query set is true in a condition when it has a row.
\<close>

definition filter_email :: "database \<Rightarrow> string \<Rightarrow> user list" where
  "filter_email db e = filter (\<lambda>u. email u = e) db"

definition filter_username :: "database \<Rightarrow> string \<Rightarrow> user list" where
  "filter_username db n = filter (\<lambda>u. username u = n) db"

definition truthy :: "'a list \<Rightarrow> bool" where
  "truthy xs = (xs \<noteq> [])"

section \<open>Validators of \<^verbatim>\<open>forms.py\<close>\<close>

text \<open>
  \<^verbatim>\<open>check_tags(text)\<close>. \<open>parse_tags\<close> lives in \<^verbatim>\<open>biostar4/forum/utils.py\<close>, which is
  not part of the sources at hand; it is a parameter of the model.
\<close>

definition check_tags :: "(string \<Rightarrow> string list) \<Rightarrow> string \<Rightarrow> error + unit" where
  "check_tags parse_tags text =
     (let tags = parse_tags text;
          bigs = filter (\<lambda>tag. length tag > 10) tags;
          dups = (card (set tags) \<noteq> length tags)
      in if length tags > 10
         then Inl (ValidationError (''You have too many tags: '' @ str_of_nat (length tags)))
         else if dups then Inl (ValidationError ''Duplicated tags in input'')
         else if truthy bigs
         then Inl (ValidationError (''These tags are too long: '' @ join '','' bigs @ '' ''))
         else Inr ())"

text \<open>
  \<^verbatim>\<open>unique_email(email)\<close> and \<^verbatim>\<open>check_email(email)\<close>. Both run one query on the User
  table; the database they leave is returned beside the outcome.
\<close>

definition unique_email :: "string \<Rightarrow> database \<Rightarrow> (error + unit) \<times> database" where
  "unique_email addr db =
     (if truthy (filter_email db addr)
      then (Inl (ValidationError (''The '' @ addr @ '' email already exists '')), db)
      else (Inr (), db))"

definition check_email :: "string \<Rightarrow> database \<Rightarrow> (error + unit) \<times> database" where
  "check_email addr db =
     (if \<not> truthy (filter_email db addr)
      then (Inl (ValidationError (''The '' @ addr @ '' email does not exists '')), db)
      else (Inr (), db))"

section \<open>CAPTCHA\<close>

text \<open>The entries of \<^verbatim>\<open>django.conf.settings\<close> that \<^verbatim>\<open>forms.py\<close> reads.\<close>

record settings =
  RECAPTCHA_ENABLED :: bool
  RECAPTCHA_SITE_KEY :: string
  RECAPTCHA_SECRET_KEY :: string

text \<open>
  The module \<^verbatim>\<open>biostar4.forum.ext.captcha\<close> is not part of the sources at hand. Its
  two functions are parameters: \<open>html_field\<close> renders the widget for a site key, and
  \<open>captcha_validate\<close> asks the external service about a request with the secret key.
  Talking to the service is an effect on the world outside the program, of type \<open>'w\<close>,
  which the call takes and returns.
\<close>

definition get_captcha_field :: "settings \<Rightarrow> (string \<Rightarrow> string) \<Rightarrow> string" where
  "get_captcha_field conf html_field =
     (if RECAPTCHA_ENABLED conf then html_field (RECAPTCHA_SITE_KEY conf) else [])"

definition validate_captcha ::
  "settings \<Rightarrow> ('r \<Rightarrow> string \<Rightarrow> 'w \<Rightarrow> (bool \<times> string) \<times> 'w) \<Rightarrow> 'r \<Rightarrow> 'w
     \<Rightarrow> (bool \<times> string) \<times> 'w" where
  "validate_captcha conf captcha_validate request w =
     (if RECAPTCHA_ENABLED conf then captcha_validate request (RECAPTCHA_SECRET_KEY conf) w
      else ((True, ''RECAPTCHA disabled''), w))"

section \<open>The field validators of \<^verbatim>\<open>UserEditForm\<close>\<close>

text \<open>
  A \<^verbatim>\<open>clean_<field>\<close> method reads \<^verbatim>\<open>self.user\<close> and the field's value,
  \<^verbatim>\<open>self.cleaned_data['<field>']\<close>; the model takes the two as arguments.
  \<^verbatim>\<open>'{}'.format(i)\<close> for an integer \<open>i\<close> is \<open>str_of_int i\<close>.
\<close>

definition str_of_int :: "int \<Rightarrow> string" where
  "str_of_int i = (if i < 0 then ''-'' @ str_of_nat (nat (- i)) else str_of_nat (nat i))"

text \<open>
  \<^verbatim>\<open>clean_files\<close>. The constant \<^verbatim>\<open>Profile.MAX_FILE_NUM\<close> is declared in
  \<^verbatim>\<open>biostar4/forum/models.py\<close>, not part of the sources at hand: a parameter. The value
  of the field is the list of the submitted files.
\<close>

definition clean_files :: "int \<Rightarrow> user \<Rightarrow> 'f list \<Rightarrow> error + 'f list" where
  "clean_files MAX_FILE_NUM usr text =
     (let count = int (length (files usr))
      in if truthy text \<and> count > MAX_FILE_NUM
         then Inl (ValidationError (''Only '' @ str_of_int MAX_FILE_NUM @
                     '' file uploads are allowed. You have '' @ str_of_int count))
         else Inr text)"

definition clean_email :: "user \<Rightarrow> string \<Rightarrow> database \<Rightarrow> (error + string) \<times> database" where
  "clean_email usr text db =
     (if text \<noteq> email usr \<and> truthy (filter_email db text)
      then (Inl (ValidationError (''The email '' @ text @ '' already exists '')), db)
      else (Inr text, db))"

text \<open>The first three statements of \<^verbatim>\<open>clean_username\<close>, which rewrite \<open>text\<close>.\<close>

definition normalize_username :: "string \<Rightarrow> string" where
  "normalize_username text0 =
     (let text1 = lower text0;
          text2 = strip '' @'' text1;
          text3 = concat (split text2)
      in text3)"

definition clean_username :: "user \<Rightarrow> string \<Rightarrow> database \<Rightarrow> (error + string) \<times> database" where
  "clean_username usr text0 db =
     (let text = normalize_username text0
      in if text \<noteq> username usr \<and> truthy (filter_username db text)
         then (Inl (ValidationError (''The username '' @ text @ '' already exists '')), db)
         else if text \<noteq> username usr \<and> startswith text ''user''
         then (Inl (ValidationError ''New usernames may not start with the word 'user'.''), db)
         else (Inr text, db))"

section \<open>Setting attributes from a form\<close>

text \<open>
  \<^verbatim>\<open>update(obj, form)\<close> assigns to an object that its caller also holds, so objects live
  in a store: a reference is a number, and the store gives the object of every
  reference. An object maps the names of its attributes to slots. What \<^verbatim>\<open>setattr\<close>
  does depends on the slot it finds:
  \<^item> \<open>Data\<close>: an ordinary attribute (or no attribute yet); the value is stored;
  \<^item> \<open>ReadOnly\<close>: a property without a setter; \<^verbatim>\<open>setattr\<close> raises \<^verbatim>\<open>AttributeError\<close>;
  \<^item> \<open>Managed\<close>: a property with a setter; the setter runs. Setters belong to the
    object's class, which is not part of \<^verbatim>\<open>forms.py\<close>: they are a parameter, free to
    change any attribute of the object and to raise.
  Of the form, \<open>update\<close> uses the verdict of \<^verbatim>\<open>is_valid()\<close> and the items of
  \<^verbatim>\<open>cleaned_data\<close>, in the dictionary's order. An exception leaves \<open>update\<close> at once;
  the store it leaves behind is returned beside it.
\<close>

datatype exn = AttributeError | OtherError string

datatype 'v slot = Data 'v | ReadOnly 'v | Managed 'v

fun slot_value :: "'v slot \<Rightarrow> 'v" where
  "slot_value (Data v) = v"
| "slot_value (ReadOnly v) = v"
| "slot_value (Managed v) = v"

type_synonym 'v object = "string \<rightharpoonup> 'v slot"
type_synonym 'v store = "nat \<Rightarrow> 'v object"
type_synonym 'v setters = "string \<Rightarrow> 'v \<Rightarrow> 'v object \<Rightarrow> (exn + unit) \<times> 'v object"

record 'v form =
  is_valid :: bool
  cleaned_data :: "(string \<times> 'v) list"

definition hasattr :: "'v store \<Rightarrow> nat \<Rightarrow> string \<Rightarrow> bool" where
  "hasattr h obj name = (h obj name \<noteq> None)"

text \<open>\<^verbatim>\<open>getattr(obj, name, None)\<close>: how the attributes of an object are observed.\<close>

definition getattr :: "'v store \<Rightarrow> nat \<Rightarrow> string \<Rightarrow> 'v option" where
  "getattr h obj name = map_option slot_value (h obj name)"

definition setattr ::
  "'v setters \<Rightarrow> 'v store \<Rightarrow> nat \<Rightarrow> string \<Rightarrow> 'v \<Rightarrow> (exn + unit) \<times> 'v store" where
  "setattr fset h obj name val =
     (case h obj name of
        Some (ReadOnly v) \<Rightarrow> (Inl AttributeError, h)
      | Some (Managed v) \<Rightarrow> (case fset name val (h obj) of (r, a) \<Rightarrow> (r, h(obj := a)))
      | Some (Data v) \<Rightarrow> (Inr (), h(obj := (h obj)(name \<mapsto> Data val)))
      | None \<Rightarrow> (Inr (), h(obj := (h obj)(name \<mapsto> Data val))))"

text \<open>The loop of \<open>update\<close> over \<^verbatim>\<open>form.cleaned_data.items()\<close>.\<close>

fun update_items ::
  "'v setters \<Rightarrow> nat \<Rightarrow> (string \<times> 'v) list \<Rightarrow> 'v store \<Rightarrow> (exn + unit) \<times> 'v store" where
  "update_items fset obj [] h = (Inr (), h)"
| "update_items fset obj ((name, val) # items) h =
     (if hasattr h obj name
      then (case setattr fset h obj name val of
              (Inl e, h') \<Rightarrow> (Inl e, h')
            | (Inr u, h') \<Rightarrow> update_items fset obj items h')
      else update_items fset obj items h)"

definition update ::
  "'v setters \<Rightarrow> nat \<Rightarrow> 'v form \<Rightarrow> 'v store \<Rightarrow> (exn + nat) \<times> 'v store" where
  "update fset obj frm h =
     (if is_valid frm
      then (case update_items fset obj (cleaned_data frm) h of
              (Inl e, h') \<Rightarrow> (Inl e, h')
            | (Inr u, h') \<Rightarrow> (Inr obj, h'))
      else (Inr obj, h))"

text \<open>
  An attribute is plain for \<^verbatim>\<open>setattr\<close> when assigning to it stores the value: it is
  absent or an ordinary attribute, and no property.
\<close>

definition plain :: "'v store \<Rightarrow> nat \<Rightarrow> string \<Rightarrow> bool" where
  "plain h obj name =
     (case h obj name of Some (ReadOnly v) \<Rightarrow> False | Some (Managed v) \<Rightarrow> False
      | Some (Data v) \<Rightarrow> True | None \<Rightarrow> True)"

text \<open>A class that defines no setter, and the store in which no object has an attribute.\<close>

definition no_setters :: "'v setters" where
  "no_setters name val a = (Inr (), a)"

definition empty_store :: "'v store" where
  "empty_store r = Map.empty"

section \<open>Runs of a validator\<close>








section \<open>Auxiliary facts\<close>

lemma dups_iff: "(card (set xs) \<noteq> length xs) = (\<not> distinct xs)"
  using card_distinct distinct_card by blast

lemma truthy_filter_iff: "truthy (filter P xs) = (\<exists>x \<in> set xs. P x)"
  by (simp add: truthy_def filter_empty_conv)

text \<open>
  \<open>clean_username\<close> with its two queries read as conditions on the rows of the table.
\<close>

lemma clean_username_cases:
  "clean_username usr text0 db =
     (if normalize_username text0 \<noteq> username usr \<and>
         (\<exists>u \<in> set db. username u = normalize_username text0)
      then (Inl (ValidationError
              (''The username '' @ normalize_username text0 @ '' already exists '')), db)
      else if normalize_username text0 \<noteq> username usr \<and>
              startswith (normalize_username text0) ''user''
      then (Inl (ValidationError ''New usernames may not start with the word 'user'.''), db)
      else (Inr (normalize_username text0), db))"
  by (simp add: clean_username_def Let_def filter_username_def truthy_filter_iff)

text \<open>Joining the words of a string drops its whitespace and nothing else.\<close>

lemma concat_split_acc: "concat (split_acc w s) = w @ filter (\<lambda>c. \<not> isspace c) s"
  by (induction s arbitrary: w) auto

lemma concat_split: "concat (split s) = filter (\<lambda>c. \<not> isspace c) s"
  by (simp add: split_def concat_split_acc)

lemma lower_char_idem: "lower_char (lower_char c) = lower_char c"
proof -
  have "of_char (char_of (of_char c + 32 :: nat)) = (of_char c + 32 :: nat)"
    if "(of_char c :: nat) \<le> 222"
    using that by (simp add: of_char_of)
  then show ?thesis
    by (auto simp: lower_char_def Let_def)
qed

lemma set_strip: "set (strip chars s) \<subseteq> set s"
  unfolding strip_def
  by (metis set_dropWhileD set_rev subsetI)

lemma set_normalize_username: "set (normalize_username t) \<subseteq> lower_char ` set t"
  using set_strip [of "'' @''" "lower t"]
  by (auto simp: normalize_username_def Let_def concat_split lower_def)






text \<open>The loop of \<open>update\<close>: other objects, plain attributes, and the stop at a read-only one.\<close>

lemma setattr_other: "r \<noteq> obj \<Longrightarrow> snd (setattr fset h obj name val) r = h r"
  by (simp add: setattr_def split: option.splits slot.splits prod.splits)

lemma update_items_other: "r \<noteq> obj \<Longrightarrow> snd (update_items fset obj items h) r = h r"
proof (induction fset obj items h rule: update_items.induct)
  case (1 fset obj h)
  then show ?case by simp
next
  case (2 fset obj name val items h)
  show ?case
  proof (cases "hasattr h obj name")
    case False
    with 2 show ?thesis by simp
  next
    case True
    obtain res h' where s: "setattr fset h obj name val = (res, h')"
      by (cases "setattr fset h obj name val")
    from setattr_other [OF 2(3), of fset h name val] s have o: "h' r = h r"
      by simp
    show ?thesis
    proof (cases res)
      case (Inl e)
      with True s o show ?thesis by simp
    next
      case (Inr u)
      with 2(1) [OF True s [symmetric] Inr 2(3)] True s o show ?thesis by simp
    qed
  qed
qed

lemma setattr_plain:
  "plain h obj name \<Longrightarrow>
     setattr fset h obj name val = (Inr (), h(obj := (h obj)(name \<mapsto> Data val)))"
  by (simp add: setattr_def plain_def split: option.splits slot.splits)

lemma update_items_plain:
  "\<forall>n \<in> fst ` set items. plain h obj n \<Longrightarrow>
     update_items fset obj items h =
       (Inr (), h(obj := (\<lambda>n. if h obj n \<noteq> None \<and> n \<in> fst ` set items
                               then map_option Data (map_of (rev items) n) else h obj n)))"
proof (induction items arbitrary: h)
  case Nil
  then show ?case by simp
next
  case (Cons item items)
  obtain name val where item: "item = (name, val)"
    by (cases item)
  show ?case
  proof (cases "hasattr h obj name")
    case False
    from Cons.prems have p: "\<forall>n \<in> fst ` set items. plain h obj n"
      by simp
    from False have "update_items fset obj (item # items) h = update_items fset obj items h"
      by (simp add: item)
    also note Cons.IH [OF p]
    finally show ?thesis
      using False
      by (auto simp: item hasattr_def fun_eq_iff map_add_def map_of_eq_None_iff
            split: option.splits)
  next
    case True
    let ?h = "h(obj := (h obj)(name \<mapsto> Data val))"
    from Cons.prems have "plain h obj name"
      by (simp add: item)
    then have s: "setattr fset h obj name val = (Inr (), ?h)"
      by (rule setattr_plain)
    from Cons.prems have p: "\<forall>n \<in> fst ` set items. plain ?h obj n"
      by (simp add: plain_def)
    from True s have "update_items fset obj (item # items) h = update_items fset obj items ?h"
      by (simp add: item)
    also note Cons.IH [OF p]
    finally show ?thesis
      using True
      by (auto simp: item hasattr_def fun_eq_iff map_add_def map_of_eq_None_iff
            rev_image_eqI [where f = fst] dest!: map_of_SomeD split: option.splits)
  qed
qed

lemma update_items_append:
  "update_items fset obj (xs @ ys) h =
     (case update_items fset obj xs h of
        (Inl e, h') \<Rightarrow> (Inl e, h')
      | (Inr u, h') \<Rightarrow> update_items fset obj ys h')"
  by (induction fset obj xs h rule: update_items.induct)
     (auto split: prod.splits sum.splits)

lemma getattr_plain_result:
  "getattr (h(obj := (\<lambda>n. if h obj n \<noteq> None \<and> n \<in> fst ` set items
                            then map_option Data (map_of (rev items) n) else h obj n))) obj name =
     (if hasattr h obj name \<and> name \<in> fst ` set items
      then map_of (rev items) name else getattr h obj name)"
  by (auto simp: getattr_def hasattr_def map_option_case split: option.splits)

lemma update_items_read_only:
  assumes "\<forall>n \<in> fst ` set pre. plain h obj n" and "h obj name = Some (ReadOnly v)"
  shows "update_items fset obj (pre @ (name, val) # post) h =
       (Inl AttributeError,
        h(obj := (\<lambda>n. if h obj n \<noteq> None \<and> n \<in> fst ` set pre
                        then map_option Data (map_of (rev pre) n) else h obj n)))"
proof -
  let ?h = "h(obj := (\<lambda>n. if h obj n \<noteq> None \<and> n \<in> fst ` set pre
                        then map_option Data (map_of (rev pre) n) else h obj n))"
  from assms have "name \<notin> fst ` set pre"
    by (auto simp: plain_def)
  with assms(2) have r: "?h obj name = Some (ReadOnly v)"
    by simp
  then have "update_items fset obj ((name, val) # post) ?h = (Inl AttributeError, ?h)"
    by (simp add: hasattr_def setattr_def)
  with update_items_plain [OF assms(1), of fset] show ?thesis
    by (simp add: update_items_append)
qed

section \<open>Tag validation\<close>

text \<open>
  Claim C1. For every input text, \<open>check_tags\<close> raises a \<open>ValidationError\<close> exactly
  when the parsed tag list has more than 10 tags, has a duplicate, or has a tag longer
  than 10 characters. The checks come in that order: too many tags is reported first,
  duplicates second, long tags third, each with its own message. When none of the three
  holds, \<open>check_tags\<close> returns normally (\<open>None\<close>).
\<close>

theorem check_tags_spec:
  "(let tags = parse_tags text;
        too_many = (10 < length tags);
        dup = (\<not> distinct tags);
        too_long = (\<exists>t \<in> set tags. 10 < length t)
    in (isl (check_tags parse_tags text) \<longleftrightarrow> too_many \<or> dup \<or> too_long) \<and>
       (too_many \<longrightarrow> check_tags parse_tags text =
          Inl (ValidationError (''You have too many tags: '' @ str_of_nat (length tags)))) \<and>
       (\<not> too_many \<and> dup \<longrightarrow> check_tags parse_tags text =
          Inl (ValidationError ''Duplicated tags in input'')) \<and>
       (\<not> too_many \<and> \<not> dup \<and> too_long \<longrightarrow> check_tags parse_tags text =
          Inl (ValidationError (''These tags are too long: '' @
                 join '','' (filter (\<lambda>t. 10 < length t) tags) @ '' ''))) \<and>
       (\<not> too_many \<and> \<not> dup \<and> \<not> too_long \<longrightarrow> check_tags parse_tags text = Inr ()))"
  by (auto simp: check_tags_def Let_def dups_iff truthy_def filter_empty_conv)

theorem check_tags_spec_witness:
  "check_tags split ''rna-seq,  assembly, rna-seq,'' =
     Inl (ValidationError ''Duplicated tags in input'') \<and>
   check_tags split ''rna-seq transcriptomics'' =
     Inl (ValidationError ''These tags are too long: transcriptomics '') \<and>
   check_tags split ''a b c d e f g h i j k k transcriptomics'' =
     Inl (ValidationError ''You have too many tags: 13'') \<and>
   check_tags split ''rna-seq assembly'' = Inr ()"
proof -
  have e1: "split ''rna-seq,  assembly, rna-seq,'' = [''rna-seq,'', ''assembly,'', ''rna-seq,'']"
    by code_simp
  have e2: "split ''rna-seq transcriptomics'' = [''rna-seq'', ''transcriptomics'']"
    by code_simp
  have e3: "split ''a b c d e f g h i j k k transcriptomics'' =
      [''a'', ''b'', ''c'', ''d'', ''e'', ''f'', ''g'', ''h'', ''i'', ''j'', ''k'', ''k'',
       ''transcriptomics'']"
    by code_simp
  have e4: "split ''rna-seq assembly'' = [''rna-seq'', ''assembly'']"
    by code_simp
  have l3: "length (split ''a b c d e f g h i j k k transcriptomics'') = 13"
    by (simp add: e3)
  have n: "str_of_nat 13 = ''13''"
    by code_simp
  have c1: "check_tags split ''rna-seq,  assembly, rna-seq,'' =
      Inl (ValidationError ''Duplicated tags in input'')"
    using check_tags_spec [of split "''rna-seq,  assembly, rna-seq,''"]
    by (simp add: e1 Let_def)
  have c2: "check_tags split ''rna-seq transcriptomics'' =
      Inl (ValidationError ''These tags are too long: transcriptomics '')"
    using check_tags_spec [of split "''rna-seq transcriptomics''"]
    by (simp add: e2 Let_def)
  have c3: "check_tags split ''a b c d e f g h i j k k transcriptomics'' =
      Inl (ValidationError ''You have too many tags: 13'')"
    using check_tags_spec [of split "''a b c d e f g h i j k k transcriptomics''"]
    by (simp add: l3 n Let_def)
  have c4: "check_tags split ''rna-seq assembly'' = Inr ()"
    using check_tags_spec [of split "''rna-seq assembly''"]
    by (simp add: e4 Let_def)
  show ?thesis
    using c1 c2 c3 c4 by simp
qed

section \<open>Signup: the email must be new\<close>

text \<open>
  Claim C2. For every email and every state of the database, \<open>unique_email\<close> raises a
  \<open>ValidationError\<close> if and only if some row of the User table has that email; the
  check is one conditional on the query's result. Otherwise it returns \<open>None\<close>. In both
  cases the database is left as it was.
\<close>

theorem unique_email_spec:
  "(isl (fst (unique_email addr db)) \<longleftrightarrow> (\<exists>u \<in> set db. email u = addr)) \<and>
   (isl (fst (unique_email addr db)) \<longrightarrow> fst (unique_email addr db) =
      Inl (ValidationError (''The '' @ addr @ '' email already exists ''))) \<and>
   (\<not> isl (fst (unique_email addr db)) \<longrightarrow> fst (unique_email addr db) = Inr ()) \<and>
   snd (unique_email addr db) = db"
  by (simp add: unique_email_def filter_email_def truthy_filter_iff)

theorem unique_email_spec_witness:
  "unique_email ''alice@lab.org''
     [\<lparr>email = ''bob@lab.org'', username = ''bob'', files = []\<rparr>,
      \<lparr>email = ''alice@lab.org'', username = ''alice'', files = []\<rparr>] =
     (Inl (ValidationError ''The alice@lab.org email already exists ''),
      [\<lparr>email = ''bob@lab.org'', username = ''bob'', files = []\<rparr>,
       \<lparr>email = ''alice@lab.org'', username = ''alice'', files = []\<rparr>]) \<and>
   unique_email ''carol@lab.org''
     [\<lparr>email = ''bob@lab.org'', username = ''bob'', files = []\<rparr>,
      \<lparr>email = ''alice@lab.org'', username = ''alice'', files = []\<rparr>] =
     (Inr (),
      [\<lparr>email = ''bob@lab.org'', username = ''bob'', files = []\<rparr>,
       \<lparr>email = ''alice@lab.org'', username = ''alice'', files = []\<rparr>])"
  using
    unique_email_spec [of "''alice@lab.org''"
      "[\<lparr>email = ''bob@lab.org'', username = ''bob'', files = []\<rparr>,
        \<lparr>email = ''alice@lab.org'', username = ''alice'', files = []\<rparr>]"]
    unique_email_spec [of "''carol@lab.org''"
      "[\<lparr>email = ''bob@lab.org'', username = ''bob'', files = []\<rparr>,
        \<lparr>email = ''alice@lab.org'', username = ''alice'', files = []\<rparr>]"]
  by (simp add: prod_eq_iff)

section \<open>The limit on uploaded files\<close>

text \<open>
  Claim C3. \<open>clean_files\<close> raises a \<open>ValidationError\<close> if and only if the submitted
  value is non-empty and the number of files already on the user's profile is strictly
  greater than \<open>MAX_FILE_NUM\<close>. With no new file it never raises, and whenever it does
  not raise it returns the submitted value unchanged.
\<close>

theorem clean_files_spec:
  "(isl (clean_files MAX_FILE_NUM usr text) \<longleftrightarrow>
      text \<noteq> [] \<and> MAX_FILE_NUM < int (length (files usr))) \<and>
   (text = [] \<longrightarrow> clean_files MAX_FILE_NUM usr text = Inr text) \<and>
   (\<not> isl (clean_files MAX_FILE_NUM usr text) \<longrightarrow>
      clean_files MAX_FILE_NUM usr text = Inr text)"
  by (simp add: clean_files_def Let_def truthy_def)

theorem clean_files_spec_witness:
  "isl (clean_files 2
     \<lparr>email = ''bob@lab.org'', username = ''bob'',
      files = [\<lparr>up_id = 1, up_name = ''a.txt''\<rparr>, \<lparr>up_id = 2, up_name = ''b.txt''\<rparr>,
               \<lparr>up_id = 3, up_name = ''c.txt''\<rparr>]\<rparr> [''d.txt'']) \<and>
   clean_files 2
     \<lparr>email = ''bob@lab.org'', username = ''bob'',
      files = [\<lparr>up_id = 1, up_name = ''a.txt''\<rparr>, \<lparr>up_id = 2, up_name = ''b.txt''\<rparr>,
               \<lparr>up_id = 3, up_name = ''c.txt''\<rparr>]\<rparr> ([] :: string list) = Inr [] \<and>
   clean_files 2
     \<lparr>email = ''ann@lab.org'', username = ''ann'',
      files = [\<lparr>up_id = 1, up_name = ''a.txt''\<rparr>, \<lparr>up_id = 2, up_name = ''b.txt''\<rparr>]\<rparr>
     [''d.txt''] = Inr [''d.txt'']"
proof -
  have a: "isl (clean_files 2
     \<lparr>email = ''bob@lab.org'', username = ''bob'',
      files = [\<lparr>up_id = 1, up_name = ''a.txt''\<rparr>, \<lparr>up_id = 2, up_name = ''b.txt''\<rparr>,
               \<lparr>up_id = 3, up_name = ''c.txt''\<rparr>]\<rparr> [''d.txt''])"
    by (simp add: clean_files_spec)
  have b: "clean_files 2
     \<lparr>email = ''bob@lab.org'', username = ''bob'',
      files = [\<lparr>up_id = 1, up_name = ''a.txt''\<rparr>, \<lparr>up_id = 2, up_name = ''b.txt''\<rparr>,
               \<lparr>up_id = 3, up_name = ''c.txt''\<rparr>]\<rparr> ([] :: string list) = Inr []"
    by (simp add: clean_files_spec)
  have c: "\<not> isl (clean_files 2
     \<lparr>email = ''ann@lab.org'', username = ''ann'',
      files = [\<lparr>up_id = 1, up_name = ''a.txt''\<rparr>, \<lparr>up_id = 2, up_name = ''b.txt''\<rparr>]\<rparr>
     [''d.txt''])"
    by (simp add: clean_files_spec)
  from c have d: "clean_files 2
     \<lparr>email = ''ann@lab.org'', username = ''ann'',
      files = [\<lparr>up_id = 1, up_name = ''a.txt''\<rparr>, \<lparr>up_id = 2, up_name = ''b.txt''\<rparr>]\<rparr>
     [''d.txt''] = Inr [''d.txt'']"
    using clean_files_spec by blast
  from a b d show ?thesis by blast
qed

section \<open>The messages of the validation errors\<close>

text \<open>
  Claim C4 says that the message of every validation error is a fixed string that does
  not vary with the input. The messages are English templates fixed in the code, but
  most of them are filled in with the rejected input: two emails that both exist are
  rejected by \<open>unique_email\<close> with two different messages.
\<close>

theorem unique_email_message_varies:
  "fst (unique_email ''ann@lab.org''
     [\<lparr>email = ''ann@lab.org'', username = ''ann'', files = []\<rparr>,
      \<lparr>email = ''bob@lab.org'', username = ''bob'', files = []\<rparr>]) =
     Inl (ValidationError ''The ann@lab.org email already exists '') \<and>
   fst (unique_email ''bob@lab.org''
     [\<lparr>email = ''ann@lab.org'', username = ''ann'', files = []\<rparr>,
      \<lparr>email = ''bob@lab.org'', username = ''bob'', files = []\<rparr>]) =
     Inl (ValidationError ''The bob@lab.org email already exists '') \<and>
   ''The ann@lab.org email already exists '' \<noteq> ''The bob@lab.org email already exists ''"
  by (simp add: unique_email_def filter_email_def truthy_def)

text \<open>
  Claim C4, as amended. Whenever one of \<open>unique_email\<close>, \<open>check_email\<close>,
  \<open>check_tags\<close>, \<open>clean_files\<close>, \<open>clean_email\<close> and \<open>clean_username\<close> fails, its
  \<open>ValidationError\<close> carries the message built from the template of that check: the
  email for the three email checks, the number of tags or the list of the long tags for
  \<open>check_tags\<close>, the limit and the count for \<open>clean_files\<close>, the normalised username
  for a taken username. Only the messages for duplicated tags and for a new username
  starting with "user" are the same for every input.
\<close>

theorem validation_messages:
  "(fst (unique_email addr db) = Inl ea \<longrightarrow>
      ea = ValidationError (''The '' @ addr @ '' email already exists '')) \<and>
   (fst (check_email addr db) = Inl eb \<longrightarrow>
      eb = ValidationError (''The '' @ addr @ '' email does not exists '')) \<and>
   (check_tags parse_tags input = Inl ec \<longrightarrow>
      ec = (if 10 < length (parse_tags input)
            then ValidationError
                   (''You have too many tags: '' @ str_of_nat (length (parse_tags input)))
            else if \<not> distinct (parse_tags input)
            then ValidationError ''Duplicated tags in input''
            else ValidationError (''These tags are too long: '' @
                   join '','' (filter (\<lambda>tag. 10 < length tag) (parse_tags input)) @ '' ''))) \<and>
   (clean_files MAX_FILE_NUM usr fs = Inl ed \<longrightarrow>
      ed = ValidationError (''Only '' @ str_of_int MAX_FILE_NUM @
             '' file uploads are allowed. You have '' @ str_of_int (int (length (files usr))))) \<and>
   (fst (clean_email usr addr db) = Inl ee \<longrightarrow>
      ee = ValidationError (''The email '' @ addr @ '' already exists '')) \<and>
   (fst (clean_username usr name db) = Inl ef \<longrightarrow>
      ef = (if \<exists>u \<in> set db. username u = normalize_username name
            then ValidationError (''The username '' @ normalize_username name @ '' already exists '')
            else ValidationError ''New usernames may not start with the word 'user'.''))"
proof -
  have a: "fst (unique_email addr db) = Inl ea \<longrightarrow>
      ea = ValidationError (''The '' @ addr @ '' email already exists '')"
    by (simp add: unique_email_def split: if_splits)
  have b: "fst (check_email addr db) = Inl eb \<longrightarrow>
      eb = ValidationError (''The '' @ addr @ '' email does not exists '')"
    by (simp add: check_email_def split: if_splits)
  have c: "check_tags parse_tags input = Inl ec \<longrightarrow>
      ec = (if 10 < length (parse_tags input)
            then ValidationError
                   (''You have too many tags: '' @ str_of_nat (length (parse_tags input)))
            else if \<not> distinct (parse_tags input)
            then ValidationError ''Duplicated tags in input''
            else ValidationError (''These tags are too long: '' @
                   join '','' (filter (\<lambda>tag. 10 < length tag) (parse_tags input)) @ '' ''))"
    by (auto simp: check_tags_def Let_def dups_iff split: if_splits)
  have d: "clean_files MAX_FILE_NUM usr fs = Inl ed \<longrightarrow>
      ed = ValidationError (''Only '' @ str_of_int MAX_FILE_NUM @
             '' file uploads are allowed. You have '' @ str_of_int (int (length (files usr))))"
    by (simp add: clean_files_def Let_def split: if_splits)
  have e: "fst (clean_email usr addr db) = Inl ee \<longrightarrow>
      ee = ValidationError (''The email '' @ addr @ '' already exists '')"
    by (simp add: clean_email_def split: if_splits)
  have f: "fst (clean_username usr name db) = Inl ef \<longrightarrow>
      ef = (if \<exists>u \<in> set db. username u = normalize_username name
            then ValidationError (''The username '' @ normalize_username name @ '' already exists '')
            else ValidationError ''New usernames may not start with the word 'user'.'')"
    by (simp add: clean_username_cases split: if_splits)
  from a b c d e f show ?thesis
    by blast
qed

theorem validation_messages_witness:
  "fst (unique_email ''bob@lab.org''
     [\<lparr>email = ''bob@lab.org'', username = ''bob'', files = []\<rparr>]) =
     Inl (ValidationError ''The bob@lab.org email already exists '') \<and>
   fst (check_email ''ann@lab.org''
     [\<lparr>email = ''bob@lab.org'', username = ''bob'', files = []\<rparr>]) =
     Inl (ValidationError ''The ann@lab.org email does not exists '') \<and>
   check_tags split ''rna rna'' = Inl (ValidationError ''Duplicated tags in input'') \<and>
   clean_files 0 \<lparr>email = ''bob@lab.org'', username = ''bob'',
       files = [\<lparr>up_id = 7, up_name = ''a.txt''\<rparr>, \<lparr>up_id = 8, up_name = ''b.txt''\<rparr>]\<rparr>
     [''c.txt''] =
     Inl (ValidationError ''Only 0 file uploads are allowed. You have 2'') \<and>
   fst (clean_email \<lparr>email = ''ann@lab.org'', username = ''ann'', files = []\<rparr> ''bob@lab.org''
     [\<lparr>email = ''bob@lab.org'', username = ''bob'', files = []\<rparr>]) =
     Inl (ValidationError ''The email bob@lab.org already exists '') \<and>
   fst (clean_username \<lparr>email = ''ann@lab.org'', username = ''ann'', files = []\<rparr> ''User7''
     [\<lparr>email = ''bob@lab.org'', username = ''bob'', files = []\<rparr>]) =
     Inl (ValidationError ''New usernames may not start with the word 'user'.'')"
proof -
  let ?ann = "\<lparr>email = ''ann@lab.org'', username = ''ann'', files = []\<rparr>"
  let ?bob = "\<lparr>email = ''bob@lab.org'', username = ''bob'', files = []\<rparr>"
  let ?two = "\<lparr>email = ''bob@lab.org'', username = ''bob'',
       files = [\<lparr>up_id = 7, up_name = ''a.txt''\<rparr>, \<lparr>up_id = 8, up_name = ''b.txt''\<rparr>]\<rparr>"
  have sp: "split ''rna rna'' = [''rna'', ''rna'']"
    by code_simp
  have nu: "normalize_username ''User7'' = ''user7''"
    by code_simp
  have s0: "str_of_int 0 = ''0''" and s2: "str_of_int 2 = ''2''"
    by code_simp+
  have l2: "int (length (files ?two)) = 2"
    by simp
  obtain ea where ea: "fst (unique_email ''bob@lab.org'' [?bob]) = Inl ea"
    by (simp add: unique_email_def filter_email_def truthy_def)
  obtain eb where eb: "fst (check_email ''ann@lab.org'' [?bob]) = Inl eb"
    by (simp add: check_email_def filter_email_def truthy_def)
  obtain ec where ec: "check_tags split ''rna rna'' = Inl ec"
    by (simp add: check_tags_def sp dups_iff Let_def)
  obtain ed where ed: "clean_files 0 ?two [''c.txt''] = Inl ed"
    by (simp add: clean_files_def truthy_def Let_def)
  obtain ee where ee: "fst (clean_email ?ann ''bob@lab.org'' [?bob]) = Inl ee"
    by (simp add: clean_email_def filter_email_def truthy_def)
  obtain ef where ef: "fst (clean_username ?ann ''User7'' [?bob]) = Inl ef"
    by (simp add: clean_username_cases nu startswith_def)
  note t = validation_messages [where addr = "''bob@lab.org''" and db = "[?bob]" and ea = ea
      and eb = eb and parse_tags = split and input = "''rna rna''" and ec = ec
      and MAX_FILE_NUM = 0 and usr = ?two and fs = "[''c.txt'']" and ed = ed
      and ee = ee and name = "''User7''" and ef = ef]
  note u = validation_messages [where addr = "''ann@lab.org''" and db = "[?bob]" and ea = ea
      and eb = eb and parse_tags = split and input = "''rna rna''" and ec = ec
      and MAX_FILE_NUM = 0 and usr = ?two and fs = "[''c.txt'']" and ed = ed
      and ee = ee and name = "''User7''" and ef = ef]
  note v = validation_messages [where addr = "''bob@lab.org''" and db = "[?bob]" and ea = ea
      and eb = eb and parse_tags = split and input = "''rna rna''" and ec = ec
      and MAX_FILE_NUM = 0 and usr = ?ann and fs = "[''c.txt'']" and ed = ed
      and ee = ee and name = "''User7''" and ef = ef]
  from t ea have a: "ea = ValidationError ''The bob@lab.org email already exists ''"
    by simp
  from u eb have b: "eb = ValidationError ''The ann@lab.org email does not exists ''"
    by simp
  from t ec have c: "ec = ValidationError ''Duplicated tags in input''"
    by (simp add: sp)
  from t ed have d: "ed = ValidationError ''Only 0 file uploads are allowed. You have 2''"
    unfolding l2 s0 s2 by simp
  from v ee have e: "ee = ValidationError ''The email bob@lab.org already exists ''"
    by simp
  from v ef have f: "ef = ValidationError ''New usernames may not start with the word 'user'.''"
    by (simp add: nu)
  from ea eb ec ed ee ef a b c d e f show ?thesis
    by simp
qed

section \<open>How the validators report their verdict\<close>

text \<open>
  Claim C5 says that each validator yields a value that tells pass from fail, rather
  than signalling failure some other way. \<open>unique_email\<close> does not: on an email that
  exists it raises, and returns nothing.
\<close>

theorem unique_email_raises:
  "fst (unique_email ''bob@lab.org''
     [\<lparr>email = ''bob@lab.org'', username = ''bob'', files = []\<rparr>]) =
     Inl (ValidationError ''The bob@lab.org email already exists '') \<and>
   fst (unique_email ''bob@lab.org''
     [\<lparr>email = ''bob@lab.org'', username = ''bob'', files = []\<rparr>]) \<noteq> Inr ()"
  by (simp add: unique_email_def filter_email_def truthy_def)

text \<open>
  Claim C5, as amended. \<open>unique_email\<close>, \<open>check_email\<close> and \<open>check_tags\<close> return
  \<open>None\<close> when the input passes and signal failure by raising a \<open>ValidationError\<close>;
  of the three, \<open>check_tags\<close> runs no query. Only \<open>validate_captcha\<close> returns its
  verdict as a value, the pair of a boolean and a message: the fixed pair when the
  CAPTCHA is disabled, the answer of the captcha service when it is enabled.
\<close>

theorem validators_raise_or_return:
  "fst (unique_email addr db) =
     (if \<exists>u \<in> set db. email u = addr
      then Inl (ValidationError (''The '' @ addr @ '' email already exists '')) else Inr ()) \<and>
   fst (check_email addr db) =
     (if \<exists>u \<in> set db. email u = addr
      then Inr () else Inl (ValidationError (''The '' @ addr @ '' email does not exists ''))) \<and>
   (isl (check_tags parse_tags input) \<longleftrightarrow>
      10 < length (parse_tags input) \<or> \<not> distinct (parse_tags input) \<or>
      (\<exists>t \<in> set (parse_tags input). 10 < length t)) \<and>
   (\<not> isl (check_tags parse_tags input) \<longrightarrow> check_tags parse_tags input = Inr ()) \<and>
   (\<not> RECAPTCHA_ENABLED conf \<longrightarrow>
      validate_captcha conf captcha_validate request w = ((True, ''RECAPTCHA disabled''), w)) \<and>
   (RECAPTCHA_ENABLED conf \<longrightarrow>
      validate_captcha conf captcha_validate request w =
        captcha_validate request (RECAPTCHA_SECRET_KEY conf) w)"
proof -
  have a: "fst (unique_email addr db) =
     (if \<exists>u \<in> set db. email u = addr
      then Inl (ValidationError (''The '' @ addr @ '' email already exists '')) else Inr ())"
    by (simp add: unique_email_def filter_email_def truthy_filter_iff)
  have b: "fst (check_email addr db) =
     (if \<exists>u \<in> set db. email u = addr
      then Inr () else Inl (ValidationError (''The '' @ addr @ '' email does not exists '')))"
    by (simp add: check_email_def filter_email_def truthy_filter_iff)
  have c: "isl (check_tags parse_tags input) \<longleftrightarrow>
      10 < length (parse_tags input) \<or> \<not> distinct (parse_tags input) \<or>
      (\<exists>t \<in> set (parse_tags input). 10 < length t)"
    by (auto simp: check_tags_def Let_def dups_iff truthy_def filter_empty_conv)
  have d: "\<not> isl (check_tags parse_tags input) \<longrightarrow> check_tags parse_tags input = Inr ()"
    by (cases "check_tags parse_tags input") simp_all
  have e: "\<not> RECAPTCHA_ENABLED conf \<longrightarrow>
      validate_captcha conf captcha_validate request w = ((True, ''RECAPTCHA disabled''), w)"
    by (simp add: validate_captcha_def)
  have f: "RECAPTCHA_ENABLED conf \<longrightarrow>
      validate_captcha conf captcha_validate request w =
        captcha_validate request (RECAPTCHA_SECRET_KEY conf) w"
    by (simp add: validate_captcha_def)
  from a b c d e f show ?thesis
    by blast
qed

theorem validators_raise_or_return_witness:
  "fst (unique_email ''bob@lab.org''
     [\<lparr>email = ''bob@lab.org'', username = ''bob'', files = []\<rparr>]) =
     Inl (ValidationError ''The bob@lab.org email already exists '') \<and>
   fst (unique_email ''ann@lab.org''
     [\<lparr>email = ''bob@lab.org'', username = ''bob'', files = []\<rparr>]) = Inr () \<and>
   fst (check_email ''bob@lab.org''
     [\<lparr>email = ''bob@lab.org'', username = ''bob'', files = []\<rparr>]) = Inr () \<and>
   fst (check_email ''ann@lab.org''
     [\<lparr>email = ''bob@lab.org'', username = ''bob'', files = []\<rparr>]) =
     Inl (ValidationError ''The ann@lab.org email does not exists '') \<and>
   isl (check_tags split ''rna rna'') \<and>
   check_tags split ''rna dna'' = Inr () \<and>
   validate_captcha
     \<lparr>RECAPTCHA_ENABLED = False, RECAPTCHA_SITE_KEY = ''site'', RECAPTCHA_SECRET_KEY = ''secret''\<rparr>
     (\<lambda>(request :: string) (key :: string) (calls :: nat). ((key = ''secret'', ''checked''), Suc calls))
     ''POST /login'' 4 = ((True, ''RECAPTCHA disabled''), 4) \<and>
   validate_captcha
     \<lparr>RECAPTCHA_ENABLED = True, RECAPTCHA_SITE_KEY = ''site'', RECAPTCHA_SECRET_KEY = ''secret''\<rparr>
     (\<lambda>(request :: string) (key :: string) (calls :: nat). ((key = ''secret'', ''checked''), Suc calls))
     ''POST /login'' 4 = ((True, ''checked''), 5)"
proof -
  let ?bob = "\<lparr>email = ''bob@lab.org'', username = ''bob'', files = []\<rparr>"
  let ?off = "\<lparr>RECAPTCHA_ENABLED = False, RECAPTCHA_SITE_KEY = ''site'',
      RECAPTCHA_SECRET_KEY = ''secret''\<rparr>"
  let ?on = "\<lparr>RECAPTCHA_ENABLED = True, RECAPTCHA_SITE_KEY = ''site'',
      RECAPTCHA_SECRET_KEY = ''secret''\<rparr>"
  let ?svc = "\<lambda>(request :: string) (key :: string) (calls :: nat).
      ((key = ''secret'', ''checked''), Suc calls)"
  have sp: "split ''rna rna'' = [''rna'', ''rna'']" "split ''rna dna'' = [''rna'', ''dna'']"
    by code_simp+
  note t = validators_raise_or_return [where addr = "''bob@lab.org''" and db = "[?bob]"
      and parse_tags = split and input = "''rna rna''" and conf = ?off
      and captcha_validate = ?svc and request = "''POST /login''" and w = 4]
  note u = validators_raise_or_return [where addr = "''ann@lab.org''" and db = "[?bob]"
      and parse_tags = split and input = "''rna dna''" and conf = ?on
      and captcha_validate = ?svc and request = "''POST /login''" and w = 4]
  from t have a: "fst (unique_email ''bob@lab.org'' [?bob]) =
      Inl (ValidationError ''The bob@lab.org email already exists '')"
    by simp
  from u have b: "fst (unique_email ''ann@lab.org'' [?bob]) = Inr ()"
    by simp
  from t have c: "fst (check_email ''bob@lab.org'' [?bob]) = Inr ()"
    by simp
  from u have d: "fst (check_email ''ann@lab.org'' [?bob]) =
      Inl (ValidationError ''The ann@lab.org email does not exists '')"
    by simp
  from t have e: "isl (check_tags split ''rna rna'')"
    by (simp add: sp)
  from u have f: "check_tags split ''rna dna'' = Inr ()"
    by (simp add: sp)
  from t have g: "validate_captcha ?off ?svc ''POST /login'' 4 =
      ((True, ''RECAPTCHA disabled''), 4)"
    by simp
  from u have h: "validate_captcha ?on ?svc ''POST /login'' 4 = ((True, ''checked''), 5)"
    by simp
  from a b c d e f g h show ?thesis
    by blast
qed

section \<open>CAPTCHA switched off\<close>

text \<open>
  Claim C6. When \<open>RECAPTCHA_ENABLED\<close> is false, \<open>validate_captcha\<close> returns the pair
  \<open>(True, "RECAPTCHA disabled")\<close> for every request, whatever the external service
  would answer and without any effect on the outside world (the service is not
  consulted), and \<open>get_captcha_field\<close> returns the empty string.
\<close>

theorem captcha_disabled:
  "\<not> RECAPTCHA_ENABLED conf \<Longrightarrow>
     validate_captcha conf captcha_validate request w = ((True, ''RECAPTCHA disabled''), w) \<and>
     get_captcha_field conf html_field = []"
  by (simp add: validate_captcha_def get_captcha_field_def)

theorem captcha_disabled_witness:
  "validate_captcha
     \<lparr>RECAPTCHA_ENABLED = False, RECAPTCHA_SITE_KEY = ''site'', RECAPTCHA_SECRET_KEY = ''secret''\<rparr>
     (\<lambda>(request :: string) (key :: string) (calls :: nat). ((False, ''denied''), Suc calls))
     ''POST /signup'' 0 = ((True, ''RECAPTCHA disabled''), 0) \<and>
   get_captcha_field
     \<lparr>RECAPTCHA_ENABLED = False, RECAPTCHA_SITE_KEY = ''site'', RECAPTCHA_SECRET_KEY = ''secret''\<rparr>
     (\<lambda>key. ''<div data-sitekey='' @ key @ ''></div>'') = []"
  using captcha_disabled [of
     "\<lparr>RECAPTCHA_ENABLED = False, RECAPTCHA_SITE_KEY = ''site'', RECAPTCHA_SECRET_KEY = ''secret''\<rparr>"
     "\<lambda>(request :: string) (key :: string) (calls :: nat). ((False, ''denied''), Suc calls)"
     "''POST /signup''" 0 "\<lambda>key. ''<div data-sitekey='' @ key @ ''></div>''"]
  by simp

section \<open>Determinism of validation\<close>



section \<open>The check-then-set of usernames\<close>

text \<open>
  Claim C8. \<open>clean_username\<close> decides by a query: a normalised username held by a row
  of the table is refused to a user who has another username. The check reserves
  nothing: it leaves the database as it was. So when a new username is held by nobody
  (and does not start with "user"), the submission of one user passes, and the same
  submission of a second user, validated after the first check and before any write,
  passes too.
\<close>

theorem clean_username_check_then_set:
  "(normalize_username text \<noteq> username usr \<and>
      (\<exists>u \<in> set db. username u = normalize_username text) \<longrightarrow>
      isl (fst (clean_username usr text db))) \<and>
   snd (clean_username usr text db) = db \<and>
   ((\<forall>u \<in> set db. username u \<noteq> normalize_username text) \<and>
      \<not> startswith (normalize_username text) ''user'' \<longrightarrow>
      clean_username usr1 text db = (Inr (normalize_username text), db) \<and>
      clean_username usr2 text (snd (clean_username usr1 text db)) =
        (Inr (normalize_username text), db))"
  by (auto simp: clean_username_cases)

theorem clean_username_check_then_set_witness:
  "clean_username \<lparr>email = ''ann@lab.org'', username = ''ann'', files = []\<rparr> ''Carol''
     [\<lparr>email = ''ann@lab.org'', username = ''ann'', files = []\<rparr>,
      \<lparr>email = ''bob@lab.org'', username = ''bob'', files = []\<rparr>] =
     (Inr ''carol'',
      [\<lparr>email = ''ann@lab.org'', username = ''ann'', files = []\<rparr>,
       \<lparr>email = ''bob@lab.org'', username = ''bob'', files = []\<rparr>]) \<and>
   clean_username \<lparr>email = ''bob@lab.org'', username = ''bob'', files = []\<rparr> ''Carol''
     (snd (clean_username \<lparr>email = ''ann@lab.org'', username = ''ann'', files = []\<rparr> ''Carol''
        [\<lparr>email = ''ann@lab.org'', username = ''ann'', files = []\<rparr>,
         \<lparr>email = ''bob@lab.org'', username = ''bob'', files = []\<rparr>])) =
     (Inr ''carol'',
      [\<lparr>email = ''ann@lab.org'', username = ''ann'', files = []\<rparr>,
       \<lparr>email = ''bob@lab.org'', username = ''bob'', files = []\<rparr>]) \<and>
   isl (fst (clean_username \<lparr>email = ''ann@lab.org'', username = ''ann'', files = []\<rparr> ''Bob''
     [\<lparr>email = ''ann@lab.org'', username = ''ann'', files = []\<rparr>,
      \<lparr>email = ''bob@lab.org'', username = ''bob'', files = []\<rparr>]))"
proof -
  let ?ann = "\<lparr>email = ''ann@lab.org'', username = ''ann'', files = []\<rparr>"
  let ?bob = "\<lparr>email = ''bob@lab.org'', username = ''bob'', files = []\<rparr>"
  have n: "normalize_username ''Carol'' = ''carol''" "normalize_username ''Bob'' = ''bob''"
    by code_simp+
  have s: "\<not> startswith ''carol'' ''user''"
    by (simp add: startswith_def)
  have f: "\<forall>u \<in> set [?ann, ?bob]. username u \<noteq> normalize_username ''Carol''"
    by (simp add: n)
  have g: "normalize_username ''Bob'' \<noteq> username ?ann \<and>
      (\<exists>u \<in> set [?ann, ?bob]. username u = normalize_username ''Bob'')"
    by (simp add: n)
  note t = clean_username_check_then_set [of "''Carol''" _ "[?ann, ?bob]" ?ann ?bob]
  note u = clean_username_check_then_set [of "''Bob''" ?ann "[?ann, ?bob]"]
  from t f s n have a: "clean_username ?ann ''Carol'' [?ann, ?bob] = (Inr ''carol'', [?ann, ?bob])"
    by metis
  from t f s n have b: "clean_username ?bob ''Carol''
      (snd (clean_username ?ann ''Carol'' [?ann, ?bob])) = (Inr ''carol'', [?ann, ?bob])"
    by metis
  from u g have c: "isl (fst (clean_username ?ann ''Bob'' [?ann, ?bob]))"
    by blast
  from a b c show ?thesis
    by blast
qed

section \<open>The frame of \<open>update\<close>\<close>

text \<open>
  Claim C9 says, of every object, that \<open>update\<close> returns it with only the attributes
  named in the cleaned data assigned. An object with a read-only property is outside
  this: \<^verbatim>\<open>hasattr\<close> finds the property, \<^verbatim>\<open>setattr\<close> raises \<^verbatim>\<open>AttributeError\<close>, so
  \<open>update\<close> does not return, and the attribute assigned before the property keeps its
  new value.
\<close>

theorem update_raises_half_way:
  "fst (update no_setters 0 \<lparr>is_valid = True, cleaned_data = [(''name'', 5), (''email'', 7)]\<rparr>
     (empty_store(0 := [''name'' \<mapsto> Data 3, ''email'' \<mapsto> ReadOnly (4::nat)]))) =
     Inl AttributeError \<and>
   getattr (snd (update no_setters 0
     \<lparr>is_valid = True, cleaned_data = [(''name'', 5), (''email'', 7)]\<rparr>
     (empty_store(0 := [''name'' \<mapsto> Data 3, ''email'' \<mapsto> ReadOnly (4::nat)])))) 0 ''name'' =
     Some 5"
  by (simp add: update_def hasattr_def setattr_def getattr_def)

text \<open>
  Claim C9, as amended. If the form is invalid, \<open>update\<close> returns the reference it was
  given and leaves the store unchanged. If the form is valid and no key of the cleaned
  data names a property of the object, \<open>update\<close> returns that reference, and an
  attribute is assigned exactly when its name is a key and the object already has it;
  it then holds the value of that key (the last one, should the item list repeat a key,
  which a dictionary's does not); every other attribute keeps its value and no attribute
  is created. If the first key that names a property names a read-only one, \<open>update\<close>
  raises \<^verbatim>\<open>AttributeError\<close> and the assignments made for the keys before it remain.
  In every case no other object of the store is touched.
\<close>

theorem update_frame:
  "(\<not> is_valid frm \<longrightarrow> update fset obj frm h = (Inr obj, h)) \<and>
   (is_valid frm \<and> (\<forall>n \<in> fst ` set (cleaned_data frm). plain h obj n) \<longrightarrow>
      fst (update fset obj frm h) = Inr obj \<and>
      (\<forall>n. getattr (snd (update fset obj frm h)) obj n =
         (if hasattr h obj n \<and> n \<in> fst ` set (cleaned_data frm)
          then map_of (rev (cleaned_data frm)) n else getattr h obj n))) \<and>
   (is_valid frm \<and> cleaned_data frm = pre @ (name, val) # post \<and>
      (\<forall>n \<in> fst ` set pre. plain h obj n) \<and> h obj name = Some (ReadOnly v) \<longrightarrow>
      fst (update fset obj frm h) = Inl AttributeError \<and>
      (\<forall>n. getattr (snd (update fset obj frm h)) obj n =
         (if hasattr h obj n \<and> n \<in> fst ` set pre
          then map_of (rev pre) n else getattr h obj n))) \<and>
   (\<forall>r. r \<noteq> obj \<longrightarrow> snd (update fset obj frm h) r = h r)"
proof -
  have a: "\<not> is_valid frm \<longrightarrow> update fset obj frm h = (Inr obj, h)"
    by (simp add: update_def)
  have b: "is_valid frm \<and> (\<forall>n \<in> fst ` set (cleaned_data frm). plain h obj n) \<longrightarrow>
      fst (update fset obj frm h) = Inr obj \<and>
      (\<forall>n. getattr (snd (update fset obj frm h)) obj n =
         (if hasattr h obj n \<and> n \<in> fst ` set (cleaned_data frm)
          then map_of (rev (cleaned_data frm)) n else getattr h obj n))"
  proof (intro impI, elim conjE)
    assume v: "is_valid frm" and p: "\<forall>n \<in> fst ` set (cleaned_data frm). plain h obj n"
    note e = update_items_plain [OF p, of fset]
    from v e show "fst (update fset obj frm h) = Inr obj \<and>
      (\<forall>n. getattr (snd (update fset obj frm h)) obj n =
         (if hasattr h obj n \<and> n \<in> fst ` set (cleaned_data frm)
          then map_of (rev (cleaned_data frm)) n else getattr h obj n))"
      unfolding update_def by (simp only: getattr_plain_result if_True prod.case sum.case
          fst_conv snd_conv simp_thms)
  qed
  have c: "is_valid frm \<and> cleaned_data frm = pre @ (name, val) # post \<and>
      (\<forall>n \<in> fst ` set pre. plain h obj n) \<and> h obj name = Some (ReadOnly v) \<longrightarrow>
      fst (update fset obj frm h) = Inl AttributeError \<and>
      (\<forall>n. getattr (snd (update fset obj frm h)) obj n =
         (if hasattr h obj n \<and> n \<in> fst ` set pre
          then map_of (rev pre) n else getattr h obj n))"
  proof (intro impI, elim conjE)
    assume v: "is_valid frm" and i: "cleaned_data frm = pre @ (name, val) # post"
      and p: "\<forall>n \<in> fst ` set pre. plain h obj n" and r: "h obj name = Some (ReadOnly v)"
    note e = update_items_read_only [OF p r, of fset val post]
    from v e show "fst (update fset obj frm h) = Inl AttributeError \<and>
      (\<forall>n. getattr (snd (update fset obj frm h)) obj n =
         (if hasattr h obj n \<and> n \<in> fst ` set pre
          then map_of (rev pre) n else getattr h obj n))"
      unfolding update_def i by (simp only: getattr_plain_result if_True prod.case sum.case
          fst_conv snd_conv simp_thms)
  qed
  have d: "\<forall>r. r \<noteq> obj \<longrightarrow> snd (update fset obj frm h) r = h r"
    using update_items_other [of _ obj fset "cleaned_data frm" h]
    by (auto simp: update_def split: prod.splits sum.splits)
  from a b c d show ?thesis
    by blast
qed

theorem update_frame_witness:
  "fst (update no_setters 0 \<lparr>is_valid = True, cleaned_data = [(''name'', 5), (''twitter'', 7)]\<rparr>
     (empty_store(0 := [''name'' \<mapsto> Data 3, ''email'' \<mapsto> Data 4, ''id'' \<mapsto> ReadOnly 8],
                  2 := [''name'' \<mapsto> Data (9::nat)]))) = Inr 0 \<and>
   getattr (snd (update no_setters 0
     \<lparr>is_valid = True, cleaned_data = [(''name'', 5), (''twitter'', 7)]\<rparr>
     (empty_store(0 := [''name'' \<mapsto> Data 3, ''email'' \<mapsto> Data 4, ''id'' \<mapsto> ReadOnly 8],
                  2 := [''name'' \<mapsto> Data (9::nat)])))) 0 ''name'' = Some 5 \<and>
   getattr (snd (update no_setters 0
     \<lparr>is_valid = True, cleaned_data = [(''name'', 5), (''twitter'', 7)]\<rparr>
     (empty_store(0 := [''name'' \<mapsto> Data 3, ''email'' \<mapsto> Data 4, ''id'' \<mapsto> ReadOnly 8],
                  2 := [''name'' \<mapsto> Data (9::nat)])))) 0 ''email'' = Some 4 \<and>
   getattr (snd (update no_setters 0
     \<lparr>is_valid = True, cleaned_data = [(''name'', 5), (''twitter'', 7)]\<rparr>
     (empty_store(0 := [''name'' \<mapsto> Data 3, ''email'' \<mapsto> Data 4, ''id'' \<mapsto> ReadOnly 8],
                  2 := [''name'' \<mapsto> Data (9::nat)])))) 0 ''twitter'' = None \<and>
   getattr (snd (update no_setters 0
     \<lparr>is_valid = True, cleaned_data = [(''name'', 5), (''twitter'', 7)]\<rparr>
     (empty_store(0 := [''name'' \<mapsto> Data 3, ''email'' \<mapsto> Data 4, ''id'' \<mapsto> ReadOnly 8],
                  2 := [''name'' \<mapsto> Data (9::nat)])))) 2 ''name'' = Some 9 \<and>
   fst (update no_setters 0 \<lparr>is_valid = False, cleaned_data = [(''name'', 5), (''twitter'', 7)]\<rparr>
     (empty_store(0 := [''name'' \<mapsto> Data 3, ''email'' \<mapsto> Data 4, ''id'' \<mapsto> ReadOnly 8],
                  2 := [''name'' \<mapsto> Data (9::nat)]))) = Inr 0 \<and>
   getattr (snd (update no_setters 0
     \<lparr>is_valid = False, cleaned_data = [(''name'', 5), (''twitter'', 7)]\<rparr>
     (empty_store(0 := [''name'' \<mapsto> Data 3, ''email'' \<mapsto> Data 4, ''id'' \<mapsto> ReadOnly 8],
                  2 := [''name'' \<mapsto> Data (9::nat)])))) 0 ''name'' = Some 3 \<and>
   fst (update no_setters 0
     \<lparr>is_valid = True, cleaned_data = [(''name'', 5), (''id'', 6), (''email'', 7)]\<rparr>
     (empty_store(0 := [''name'' \<mapsto> Data 3, ''email'' \<mapsto> Data 4, ''id'' \<mapsto> ReadOnly 8],
                  2 := [''name'' \<mapsto> Data (9::nat)]))) = Inl AttributeError \<and>
   getattr (snd (update no_setters 0
     \<lparr>is_valid = True, cleaned_data = [(''name'', 5), (''id'', 6), (''email'', 7)]\<rparr>
     (empty_store(0 := [''name'' \<mapsto> Data 3, ''email'' \<mapsto> Data 4, ''id'' \<mapsto> ReadOnly 8],
                  2 := [''name'' \<mapsto> Data (9::nat)])))) 0 ''name'' = Some 5 \<and>
   getattr (snd (update no_setters 0
     \<lparr>is_valid = True, cleaned_data = [(''name'', 5), (''id'', 6), (''email'', 7)]\<rparr>
     (empty_store(0 := [''name'' \<mapsto> Data 3, ''email'' \<mapsto> Data 4, ''id'' \<mapsto> ReadOnly 8],
                  2 := [''name'' \<mapsto> Data (9::nat)])))) 0 ''email'' = Some 4"
proof -
  let ?h = "empty_store(0 := [''name'' \<mapsto> Data 3, ''email'' \<mapsto> Data 4, ''id'' \<mapsto> ReadOnly 8],
                  2 := [''name'' \<mapsto> Data (9::nat)])"
  let ?f = "\<lparr>is_valid = True, cleaned_data = [(''name'', 5::nat), (''twitter'', 7)]\<rparr>"
  let ?g = "\<lparr>is_valid = False, cleaned_data = [(''name'', 5::nat), (''twitter'', 7)]\<rparr>"
  let ?k = "\<lparr>is_valid = True, cleaned_data = [(''name'', 5::nat), (''id'', 6), (''email'', 7)]\<rparr>"
  note t = update_frame [where fset = no_setters and obj = 0 and frm = ?f and h = ?h
      and pre = "[]" and name = "''id''" and val = 6 and post = "[]" and v = 8]
  note u = update_frame [where fset = no_setters and obj = 0 and frm = ?g and h = ?h
      and pre = "[]" and name = "''id''" and val = 6 and post = "[]" and v = 8]
  note w = update_frame [where fset = no_setters and obj = 0 and frm = ?k and h = ?h
      and pre = "[(''name'', 5)]" and name = "''id''" and val = 6
      and post = "[(''email'', 7)]" and v = 8]
  have vf: "is_valid ?f" and vg: "\<not> is_valid ?g" and vk: "is_valid ?k"
    by simp_all
  have pf: "\<forall>n \<in> fst ` set (cleaned_data ?f). plain ?h 0 n"
    by (simp add: plain_def)
  have ik: "cleaned_data ?k = [(''name'', 5)] @ (''id'', 6) # [(''email'', 7)]"
    by simp
  have pk: "\<forall>n \<in> fst ` set [(''name'', 5::nat)]. plain ?h 0 n"
    by (simp add: plain_def)
  have rk: "?h 0 ''id'' = Some (ReadOnly 8)"
    by simp
  from t vf pf have t1: "fst (update no_setters 0 ?f ?h) = Inr 0"
    by blast
  from t vf pf have t2: "getattr (snd (update no_setters 0 ?f ?h)) 0 n =
      (if hasattr ?h 0 n \<and> n \<in> fst ` set (cleaned_data ?f)
       then map_of (rev (cleaned_data ?f)) n else getattr ?h 0 n)" for n
    by blast
  from t have t3: "snd (update no_setters 0 ?f ?h) 2 = ?h 2"
    by simp
  from u vg have u1: "update no_setters 0 ?g ?h = (Inr 0, ?h)"
    by blast
  from w vk ik pk rk have w1: "fst (update no_setters 0 ?k ?h) = Inl AttributeError"
    by blast
  from w vk ik pk rk have w2: "getattr (snd (update no_setters 0 ?k ?h)) 0 n =
      (if hasattr ?h 0 n \<and> n \<in> fst ` set [(''name'', 5::nat)]
       then map_of (rev [(''name'', 5)]) n else getattr ?h 0 n)" for n
    by blast
  have a: "getattr (snd (update no_setters 0 ?f ?h)) 0 ''name'' = Some 5"
    unfolding t2 by (simp add: hasattr_def)
  have b: "getattr (snd (update no_setters 0 ?f ?h)) 0 ''email'' = Some 4"
    unfolding t2 by (simp add: hasattr_def getattr_def)
  have c: "getattr (snd (update no_setters 0 ?f ?h)) 0 ''twitter'' = None"
    unfolding t2 by (simp add: hasattr_def getattr_def)
  have d: "getattr (snd (update no_setters 0 ?f ?h)) 2 ''name'' = Some 9"
    using t3 by (simp add: getattr_def)
  have e: "fst (update no_setters 0 ?g ?h) = Inr 0"
    unfolding u1 by simp
  have f: "getattr (snd (update no_setters 0 ?g ?h)) 0 ''name'' = Some 3"
    unfolding u1 by (simp add: getattr_def)
  have g: "getattr (snd (update no_setters 0 ?k ?h)) 0 ''name'' = Some 5"
    unfolding w2 by (simp add: hasattr_def)
  have i: "getattr (snd (update no_setters 0 ?k ?h)) 0 ''email'' = Some 4"
    unfolding w2 by (simp add: hasattr_def getattr_def)
  from t1 a b c d e f w1 g i show ?thesis
    by blast
qed

section \<open>Normalisation of usernames\<close>

text \<open>
  What \<open>clean_username\<close> returns is in lower case and has no whitespace, and a user's
  own username that normalises to itself is accepted, whatever it starts with.
\<close>

lemma normalize_username_lower: "lower (normalize_username t) = normalize_username t"
proof -
  have "lower_char c = c" if "c \<in> set (normalize_username t)" for c
    using that set_normalize_username [of t] by (auto simp: lower_char_idem)
  then show ?thesis
    by (simp add: lower_def map_idI)
qed

lemma normalize_username_nospace: "c \<in> set (normalize_username t) \<Longrightarrow> \<not> isspace c"
  by (simp add: normalize_username_def Let_def concat_split)

lemma clean_username_own:
  "normalize_username (username usr) = username usr \<Longrightarrow>
     clean_username usr (username usr) db = (Inr (username usr), db)"
  by (simp add: clean_username_cases)

text \<open>
  Claim C10 adds that the returned username has no leading or trailing \<open>@\<close> and that
  normalising it again changes nothing. \<open>strip\<close> runs before the whitespace is removed,
  so an \<open>@\<close> behind a tab survives: for the input \<open>@\<close>, tab, \<open>@a\<close> the
  method returns \<open>@a\<close>, which starts with \<open>@\<close> and normalises to \<open>a\<close>.
\<close>

theorem clean_username_keeps_at_sign:
  "clean_username \<lparr>email = ''ann@lab.org'', username = ''ann'', files = []\<rparr>
     (''@'' @ [CHR 0x09] @ ''@a'')
     [\<lparr>email = ''ann@lab.org'', username = ''ann'', files = []\<rparr>] =
     (Inr ''@a'', [\<lparr>email = ''ann@lab.org'', username = ''ann'', files = []\<rparr>]) \<and>
   normalize_username ''@a'' = ''a''"
proof -
  have n: "normalize_username (''@'' @ [CHR 0x09] @ ''@a'') = ''@a''"
    by code_simp
  have m: "normalize_username ''@a'' = ''a''"
    by code_simp
  show ?thesis
    by (simp add: clean_username_cases n m startswith_def del: append.simps)
qed

end
